theory Spec2Isabelle
  imports Main "HOL-Library.Sublist"
begin

section \<open>The host language: numbers and strings\<close>

text \<open>
  The plugin is one TypeScript file, \<^verbatim>\<open>main.ts\<close>. Strings are modelled as
  \<^typ>\<open>string\<close>. The numbers the code handles are the results of the getters of a
  \<^verbatim>\<open>Date\<close>: integers of small magnitude, or \<^verbatim>\<open>NaN\<close> when the date is invalid.
\<close>

datatype number = NaN | Integral int

fun add :: "number \<Rightarrow> number \<Rightarrow> number" where
  "add (Integral a) (Integral b) = Integral (a + b)"
| "add _ _ = NaN"

definition digit_char :: "nat \<Rightarrow> char" where
  "digit_char d = ''0123456789'' ! d"

text \<open>The decimal digits of a natural number, most significant first.\<close>

fun digits :: "nat \<Rightarrow> string" where
  "digits n = (if n < 10 then [digit_char n] else digits (n div 10) @ [digit_char (n mod 10)])"

declare digits.simps [simp del]

text \<open>
  \<^verbatim>\<open>Number.prototype.toString()\<close> on the numbers above (every getter of a date
  returns an integer below \<open>10\<^sup>2\<^sup>1\<close> in magnitude, which prints in plain decimal).
\<close>

fun toString :: "number \<Rightarrow> string" where
  "toString NaN = ''NaN''"
| "toString (Integral i) = (if i < 0 then CHR ''-'' # digits (nat (- i)) else digits (nat i))"

text \<open>
  \<^verbatim>\<open>String.prototype.padStart(targetLength, padString)\<close>: a string that is long
  enough, or an empty filler, leaves the string as it is; otherwise the filler is repeated
  and cut to the missing length.
\<close>

definition padStart :: "string \<Rightarrow> nat \<Rightarrow> string \<Rightarrow> string" where
  "padStart s targetLength padString =
     (if targetLength \<le> length s \<or> padString = [] then s
      else take (targetLength - length s)
             (concat (replicate (targetLength - length s) padString)) @ s)"

section \<open>Dates\<close>

text \<open>
  A \<^verbatim>\<open>Date\<close> is seen through its local-time getters only. It is either invalid
  (every getter returns \<^verbatim>\<open>NaN\<close>) or it has calendar fields; \<open>monthIndex\<close> is the
  zero-based month that \<^verbatim>\<open>getMonth()\<close> returns.
\<close>

record calendar =
  fullYear :: int
  monthIndex :: int
  dayOfMonth :: int
  hour :: int
  minute :: int
  second :: int
  millisecond :: int

datatype Date = InvalidDate | LocalTime calendar

fun getFullYear :: "Date \<Rightarrow> number" where
  "getFullYear InvalidDate = NaN"
| "getFullYear (LocalTime c) = Integral (fullYear c)"

fun getMonth :: "Date \<Rightarrow> number" where
  "getMonth InvalidDate = NaN"
| "getMonth (LocalTime c) = Integral (monthIndex c)"

fun getDate :: "Date \<Rightarrow> number" where
  "getDate InvalidDate = NaN"
| "getDate (LocalTime c) = Integral (dayOfMonth c)"

fun getHours :: "Date \<Rightarrow> number" where
  "getHours InvalidDate = NaN"
| "getHours (LocalTime c) = Integral (hour c)"

fun getMinutes :: "Date \<Rightarrow> number" where
  "getMinutes InvalidDate = NaN"
| "getMinutes (LocalTime c) = Integral (minute c)"

text \<open>The fields of a valid date lie in the ranges of the calendar.\<close>

definition calendar_instant :: "calendar \<Rightarrow> bool" where
  "calendar_instant c =
     (- 271821 \<le> fullYear c \<and> fullYear c \<le> 275760 \<and>
      0 \<le> monthIndex c \<and> monthIndex c \<le> 11 \<and>
      1 \<le> dayOfMonth c \<and> dayOfMonth c \<le> 31 \<and>
      0 \<le> hour c \<and> hour c \<le> 23 \<and>
      0 \<le> minute c \<and> minute c \<le> 59 \<and>
      0 \<le> second c \<and> second c \<le> 59 \<and>
      0 \<le> millisecond c \<and> millisecond c \<le> 999)"

section \<open>The naming function\<close>

text \<open>The local helper \<^verbatim>\<open>pad\<close> of \<^verbatim>\<open>formatDatePrefix\<close>.\<close>

definition pad :: "number \<Rightarrow> string" where
  "pad v = padStart (toString v) 2 ''0''"

definition formatDatePrefix :: "Date \<Rightarrow> string" where
  "formatDatePrefix date =
     (let year = getFullYear date;
          month = pad (add (getMonth date) (Integral 1));
          day = pad (getDate date);
          hours = pad (getHours date);
          minutes = pad (getMinutes date)
      in toString year @ ''-'' @ month @ ''-'' @ day @ ''-'' @ hours @ ''-'' @ minutes)"

text \<open>
  What the specification calls a field zero-padded to width 2: the tens digit, then the
  units digit.
\<close>

definition two_digits :: "int \<Rightarrow> string" where
  "two_digits n = [digit_char (nat n div 10), digit_char (nat n mod 10)]"

text \<open>The number a string of decimal digits denotes.\<close>

definition digit_value :: "char \<Rightarrow> nat" where
  "digit_value c = of_char c - 48"

definition decimal_value :: "string \<Rightarrow> nat" where
  "decimal_value s = foldl (\<lambda>acc c. 10 * acc + digit_value c) 0 s"

section \<open>The kinds of post and the choice prompt\<close>

text \<open>
  \<^verbatim>\<open>enum PostKind\<close> is a string enum: each member stands for its string value, and
  \<^verbatim>\<open>Object.values(PostKind)\<close> lists the members in the order of their declaration.
\<close>

datatype PostKind = BlogPost | Note | Photos

fun PostKind_value :: "PostKind \<Rightarrow> string" where
  "PostKind_value BlogPost = ''blogpost''"
| "PostKind_value Note = ''note''"
| "PostKind_value Photos = ''photos''"

definition Object_values_PostKind :: "PostKind list" where
  "Object_values_PostKind = [BlogPost, Note, Photos]"

text \<open>
  \<^verbatim>\<open>String.prototype.toLowerCase()\<close>, on the ASCII letters; every other character
  is left as it is.
\<close>

definition char_toLowerCase :: "char \<Rightarrow> char" where
  "char_toLowerCase c =
     (case map_of (zip ''ABCDEFGHIJKLMNOPQRSTUVWXYZ'' ''abcdefghijklmnopqrstuvwxyz'') c of
        None \<Rightarrow> c
      | Some l \<Rightarrow> l)"

definition toLowerCase :: "string \<Rightarrow> string" where
  "toLowerCase s = map char_toLowerCase s"

text \<open>
  \<^verbatim>\<open>String.prototype.includes(searchString)\<close>: the search string occurs at some
  position of the string.
\<close>

fun String_includes :: "string \<Rightarrow> string \<Rightarrow> bool" where
  "String_includes [] q = (q = [])"
| "String_includes (c # s) q = (prefix q (c # s) \<or> String_includes s q)"

definition getSuggestions :: "string \<Rightarrow> PostKind list" where
  "getSuggestions query =
     filter (\<lambda>postKind. String_includes (toLowerCase (PostKind_value postKind)) (toLowerCase query))
       Object_values_PostKind"

section \<open>Promises and the two prompts\<close>

text \<open>
  A promise is settled by the first call of its \<^verbatim>\<open>resolve\<close> function; later calls
  have no effect. None of the promises of the plugin is ever rejected.
\<close>

datatype 'a promise = Pending | Fulfilled 'a

fun resolve :: "'a promise \<Rightarrow> 'a \<Rightarrow> 'a promise" where
  "resolve Pending v = Fulfilled v"
| "resolve (Fulfilled w) v = Fulfilled w"

text \<open>
  \<^verbatim>\<open>PostKindChooserModal.onChooseSuggestion\<close> hands the chosen kind to the callback
  \<open>onSubmit\<close>, which acts on the state \<open>w\<close> of the caller.
\<close>

definition onChooseSuggestion :: "(string \<Rightarrow> 'w \<Rightarrow> 'w) \<Rightarrow> PostKind \<Rightarrow> 'w \<Rightarrow> 'w" where
  "onChooseSuggestion onSubmit postKind w = onSubmit (PostKind_value postKind) w"

text \<open>
  \<^verbatim>\<open>PostTitleModal\<close>: the variable \<open>name\<close> of the constructor's closure, whether the
  modal is open, and the state of the caller that \<open>onSubmit\<close> acts on.
\<close>

record 'w PostTitleModal =
  name :: string
  isOpen :: bool
  caller :: 'w

definition PostTitleModal_new :: "'w \<Rightarrow> 'w PostTitleModal" where
  "PostTitleModal_new w = \<lparr>name = '''', isOpen = False, caller = w\<rparr>"

definition Modal_open :: "'w PostTitleModal \<Rightarrow> 'w PostTitleModal" where
  "Modal_open m = m\<lparr>isOpen := True\<rparr>"

definition Modal_close :: "'w PostTitleModal \<Rightarrow> 'w PostTitleModal" where
  "Modal_close m = m\<lparr>isOpen := False\<rparr>"

text \<open>The handler of the text field and the handler of the Submit button.\<close>

definition onChange :: "string \<Rightarrow> 'w PostTitleModal \<Rightarrow> 'w PostTitleModal" where
  "onChange v m = m\<lparr>name := v\<rparr>"

definition onClick :: "(string \<Rightarrow> 'w \<Rightarrow> 'w) \<Rightarrow> 'w PostTitleModal \<Rightarrow> 'w PostTitleModal" where
  "onClick onSubmit m = (let m' = Modal_close m in m'\<lparr>caller := onSubmit (name m') (caller m')\<rparr>)"

text \<open>What the user does to the modal: edit the text field, or press Submit.\<close>

datatype ui_event = TextChanged string | SubmitClicked

fun dispatch :: "(string \<Rightarrow> 'w \<Rightarrow> 'w) \<Rightarrow> ui_event \<Rightarrow> 'w PostTitleModal \<Rightarrow> 'w PostTitleModal" where
  "dispatch onSubmit (TextChanged v) m = onChange v m"
| "dispatch onSubmit SubmitClicked m = onClick onSubmit m"

definition deliver :: "(string \<Rightarrow> 'w \<Rightarrow> 'w) \<Rightarrow> ui_event list \<Rightarrow> 'w PostTitleModal \<Rightarrow> 'w PostTitleModal" where
  "deliver onSubmit events m = fold (dispatch onSubmit) events m"

text \<open>
  The two promises of the command: each is created pending, its executor opens a modal
  whose callback resolves it, and the user's actions then reach the modal.
\<close>

definition awaitPostKind :: "PostKind option \<Rightarrow> string promise" where
  "awaitPostKind chosen =
     (case chosen of
        None \<Rightarrow> Pending
      | Some postKind \<Rightarrow> onChooseSuggestion (\<lambda>postKind p. resolve p postKind) postKind Pending)"

definition awaitPostTitle :: "ui_event list \<Rightarrow> string promise" where
  "awaitPostTitle events =
     caller (deliver (\<lambda>title p. resolve p title) events (Modal_open (PostTitleModal_new Pending)))"

section \<open>Settings\<close>

text \<open>An object with string values: a finite map from property names to values.\<close>

type_synonym obj = "string \<rightharpoonup> string"

definition DEFAULT_SETTINGS :: obj where
  "DEFAULT_SETTINGS = [''mySetting'' \<mapsto> ''test'']"

text \<open>
  \<^verbatim>\<open>Object.assign(target, ...sources)\<close>: the properties of each source are copied
  onto the target, from left to right; a source that is \<^verbatim>\<open>null\<close> is skipped.
\<close>

fun Object_assign :: "obj \<Rightarrow> obj option list \<Rightarrow> obj" where
  "Object_assign target [] = target"
| "Object_assign target (None # sources) = Object_assign target sources"
| "Object_assign target (Some source # sources) = Object_assign (target ++ source) sources"

text \<open>
  The plugin: its field \<open>settings\<close>, and the data the host keeps for it (\<open>None\<close> until
  the first save).
\<close>

record MyPlugin =
  settings :: obj
  stored :: "obj option"

text \<open>
  Modelled from the spec: the host's settings persistence, \<^verbatim>\<open>loadData\<close> and
  \<^verbatim>\<open>saveData\<close> of the base class \<^verbatim>\<open>Plugin\<close>, is not part of the repository.
  \<open>load() -> partial record | empty; save(record) -> void\<close>: saving keeps the record,
  loading returns the record last saved, or nothing.
\<close>

definition loadData :: "MyPlugin \<Rightarrow> obj option" where
  "loadData p = stored p"

definition saveData :: "obj \<Rightarrow> MyPlugin \<Rightarrow> MyPlugin" where
  "saveData d p = p\<lparr>stored := Some d\<rparr>"

definition loadSettings :: "MyPlugin \<Rightarrow> MyPlugin" where
  "loadSettings p = p\<lparr>settings := Object_assign Map.empty [Some DEFAULT_SETTINGS, loadData p]\<rparr>"

definition saveSettings :: "MyPlugin \<Rightarrow> MyPlugin" where
  "saveSettings p = saveData (settings p) p"

section \<open>The command create-new-post\<close>

text \<open>
  A failure of a host call, with the text a notice shows for it. What the command does to
  the host is recorded as a list of effects, in the order of the calls.
\<close>

datatype failure = Failure (description: string)

datatype effect =
    OpenPostKindChooserModal
  | OpenPostTitleModal
  | ShowNotice string
  | VaultCreateFolder string
  | VaultCreate string string
  | WorkspaceGetLeaf bool
  | LeafOpenFile string

text \<open>
  The surroundings of one run of the command: what the user does in the two prompts, the
  clock, and the answers of the vault and of the workspace leaf. A folder and a file are
  known by their paths. Each of the three asynchronous calls either fails or answers;
  \<^verbatim>\<open>getLeaf\<close> answers at once.
\<close>

record host =
  suggestionChosen :: "PostKind option"
  titleModalEvents :: "ui_event list"
  currentTime :: Date
  vault_createFolder :: "string \<Rightarrow> failure + string"
  vault_create :: "string \<Rightarrow> string \<Rightarrow> failure + string"
  leaf_openFile :: "string \<Rightarrow> failure + unit"

text \<open>A run either returns, or stays suspended at a promise that is never settled.\<close>

datatype outcome = Returned | Suspended

text \<open>The folder name, as lines 67 to 69 of \<^verbatim>\<open>main.ts\<close> compute it.\<close>

definition folderName :: "string \<Rightarrow> Date \<Rightarrow> string \<Rightarrow> string" where
  "folderName postKind now postTitle =
     (let kindPrefix = (if postKind = PostKind_value Note then ''note-'' else '''');
          datePrefix = formatDatePrefix now
      in ''content/posts/'' @ kindPrefix @ datePrefix @ ''-'' @ postTitle)"

text \<open>The \<^verbatim>\<open>try\<close> block with its \<^verbatim>\<open>catch\<close>: the first failure ends the block with a notice.\<close>

definition create_post :: "host \<Rightarrow> string \<Rightarrow> string \<Rightarrow> effect list" where
  "create_post h postKind postTitle =
     (let folder = folderName postKind (currentTime h) postTitle
      in VaultCreateFolder folder #
         (case vault_createFolder h folder of
            Inl e \<Rightarrow> [ShowNotice (description e)]
          | Inr folder_path \<Rightarrow>
              ShowNotice folder_path #
              VaultCreate (folder_path @ ''/index.md'') '''' #
              (case vault_create h (folder_path @ ''/index.md'') '''' of
                 Inl e \<Rightarrow> [ShowNotice (description e)]
               | Inr file \<Rightarrow>
                   WorkspaceGetLeaf False #
                   LeafOpenFile file #
                   (case leaf_openFile h file of
                      Inl e \<Rightarrow> [ShowNotice (description e)]
                    | Inr _ \<Rightarrow> []))))"

text \<open>The callback of the command.\<close>

definition create_new_post :: "host \<Rightarrow> effect list \<times> outcome" where
  "create_new_post h =
     (case awaitPostKind (suggestionChosen h) of
        Pending \<Rightarrow> ([OpenPostKindChooserModal], Suspended)
      | Fulfilled postKind \<Rightarrow>
          (case awaitPostTitle (titleModalEvents h) of
             Pending \<Rightarrow>
               ([OpenPostKindChooserModal, ShowNotice postKind, OpenPostTitleModal], Suspended)
           | Fulfilled postTitle \<Rightarrow>
               ([OpenPostKindChooserModal, ShowNotice postKind, OpenPostTitleModal,
                 ShowNotice postTitle] @ create_post h postKind postTitle, Returned)))"

text \<open>The requests of one kind in a list of effects.\<close>

fun folder_requests :: "effect list \<Rightarrow> string list" where
  "folder_requests [] = []"
| "folder_requests (VaultCreateFolder p # es) = p # folder_requests es"
| "folder_requests (_ # es) = folder_requests es"

fun notices :: "effect list \<Rightarrow> string list" where
  "notices [] = []"
| "notices (ShowNotice m # es) = m # notices es"
| "notices (_ # es) = notices es"

fun file_requests :: "effect list \<Rightarrow> string list" where
  "file_requests [] = []"
| "file_requests (VaultCreate p _ # es) = p # file_requests es"
| "file_requests (_ # es) = file_requests es"

fun navigations :: "effect list \<Rightarrow> effect list" where
  "navigations [] = []"
| "navigations (WorkspaceGetLeaf b # es) = WorkspaceGetLeaf b # navigations es"
| "navigations (LeafOpenFile f # es) = LeafOpenFile f # navigations es"
| "navigations (_ # es) = navigations es"

section \<open>The naming function, run on the state of the program\<close>

text \<open>
  In the program the argument of \<^verbatim>\<open>formatDatePrefix\<close> is a reference to a
  \<^verbatim>\<open>Date\<close> object, which its setters can change, and a function can call the host.
  The state of the program is the \<^verbatim>\<open>Date\<close> objects that exist, by reference, and
  what has been done to the host so far. A computation takes the state and gives back a
  value, or what it throws, and the state it leaves.
\<close>

datatype thrown = TypeError

record runtime =
  date_objects :: "nat \<rightharpoonup> Date"
  host_effects :: "effect list"

type_synonym 'a js = "runtime \<Rightarrow> (thrown + 'a) \<times> runtime"

definition js_return :: "'a \<Rightarrow> 'a js" where
  "js_return v r = (Inr v, r)"

text \<open>One computation after another: what the first throws ends both.\<close>

definition js_bind :: "'a js \<Rightarrow> ('a \<Rightarrow> 'b js) \<Rightarrow> 'b js" where
  "js_bind m f r = (case m r of (Inl e, r') \<Rightarrow> (Inl e, r') | (Inr v, r') \<Rightarrow> f v r')"

text \<open>
  A call of a getter on the object a reference stands for; a getter called on what is
  not a \<^verbatim>\<open>Date\<close> throws a \<^verbatim>\<open>TypeError\<close>.
\<close>

definition Date_get :: "(Date \<Rightarrow> number) \<Rightarrow> nat \<Rightarrow> number js" where
  "Date_get getter this r =
     (case date_objects r this of
        None \<Rightarrow> (Inl TypeError, r)
      | Some d \<Rightarrow> (Inr (getter d), r))"

text \<open>
  \<^verbatim>\<open>formatDatePrefix\<close>, statement by statement: the four calls of \<^verbatim>\<open>pad\<close> and the
  template work on numbers and strings, which are values and have no state.
\<close>

definition formatDatePrefix_run :: "nat \<Rightarrow> string js" where
  "formatDatePrefix_run date =
     js_bind (Date_get getFullYear date) (\<lambda>year.
     js_bind (Date_get getMonth date) (\<lambda>monthIndex.
     js_bind (js_return (pad (add monthIndex (Integral 1)))) (\<lambda>month.
     js_bind (Date_get getDate date) (\<lambda>dayOfMonth.
     js_bind (js_return (pad dayOfMonth)) (\<lambda>day.
     js_bind (Date_get getHours date) (\<lambda>hour.
     js_bind (js_return (pad hour)) (\<lambda>hours.
     js_bind (Date_get getMinutes date) (\<lambda>minute.
     js_bind (js_return (pad minute)) (\<lambda>minutes.
     js_return (toString year @ ''-'' @ month @ ''-'' @ day @ ''-'' @ hours @ ''-'' @ minutes))))))))))"

section \<open>One concrete surrounding\<close>

text \<open>
  The fifth of March 2024, seven minutes past nine, and a host in which the user picks a
  kind, types a title and submits it, and every file is created and opened.
\<close>

definition sample_time :: Date where
  "sample_time = LocalTime \<lparr>fullYear = 2024, monthIndex = 2, dayOfMonth = 5, hour = 9,
     minute = 7, second = 30, millisecond = 250\<rparr>"

definition sample_host :: "PostKind \<Rightarrow> string \<Rightarrow> (string \<Rightarrow> failure + string) \<Rightarrow> host" where
  "sample_host kind title createFolder =
     \<lparr>suggestionChosen = Some kind,
      titleModalEvents = [TextChanged title, SubmitClicked],
      currentTime = sample_time,
      vault_createFolder = createFolder,
      vault_create = (\<lambda>path contents. Inr path),
      leaf_openFile = (\<lambda>file. Inr ())\<rparr>"

text \<open>
  Two states of the program: in the first a notice has been shown and the object 0 is the
  sample time, in the second the object 7 is the same minute at another second, next to an
  invalid date.
\<close>

definition sample_runtime :: runtime where
  "sample_runtime = \<lparr>date_objects = [0 \<mapsto> sample_time], host_effects = [ShowNotice ''note'']\<rparr>"

definition other_runtime :: runtime where
  "other_runtime =
     \<lparr>date_objects =
        [7 \<mapsto> LocalTime \<lparr>fullYear = 2024, monthIndex = 2, dayOfMonth = 5, hour = 9,
           minute = 7, second = 0, millisecond = 0\<rparr>,
         8 \<mapsto> InvalidDate],
      host_effects = []\<rparr>"

section \<open>Facts about digits and padding\<close>

lemma digit_value_digit_char: "d < 10 \<Longrightarrow> digit_value (digit_char d) = d"
proof -
  assume "d < 10"
  then have "d \<in> {0, 1, 2, 3, 4, 5, 6, 7, 8, 9}" by auto
  then show ?thesis
    by (auto simp: digit_value_def digit_char_def)
qed

lemma digits_small: "n < 10 \<Longrightarrow> digits n = [digit_char n]"
  by (simp add: digits.simps)

lemma digits_large: "10 \<le> n \<Longrightarrow> digits n = digits (n div 10) @ [digit_char (n mod 10)]"
  by (subst digits.simps) simp

lemma digits_two: "10 \<le> n \<Longrightarrow> n < 100 \<Longrightarrow> digits n = [digit_char (n div 10), digit_char (n mod 10)]"
  by (simp add: digits_large digits_small)

lemma digit_char_not_slash: "d < 10 \<Longrightarrow> digit_char d \<noteq> CHR ''/''"
proof -
  assume "d < 10"
  then have "d \<in> {0, 1, 2, 3, 4, 5, 6, 7, 8, 9}" by auto
  then show ?thesis
    by (auto simp: digit_char_def)
qed

lemma digits_no_slash: "CHR ''/'' \<notin> set (digits n)"
proof (induction n rule: digits.induct)
  case (1 n)
  show ?case
  proof (cases "n < 10")
    case True
    then show ?thesis using digit_char_not_slash [of n] by (auto simp: digits_small)
  next
    case False
    have "digit_char (n mod 10) \<noteq> CHR ''/''"
      by (rule digit_char_not_slash) simp
    with False 1 show ?thesis by (auto simp: digits_large)
  qed
qed

lemma decimal_value_snoc: "decimal_value (s @ [c]) = 10 * decimal_value s + digit_value c"
  by (simp add: decimal_value_def)

lemma decimal_value_digits: "decimal_value (digits n) = n"
proof (induction n rule: digits.induct)
  case (1 n)
  show ?case
  proof (cases "n < 10")
    case True
    then show ?thesis
      by (simp add: digits_small decimal_value_def digit_value_digit_char)
  next
    case False
    then have "decimal_value (digits n) = 10 * (n div 10) + n mod 10"
      using 1 by (simp add: digits_large decimal_value_snoc digit_value_digit_char)
    then show ?thesis by simp
  qed
qed

lemma digits_not_Nil: "digits n \<noteq> []"
  by (subst digits.simps) simp

lemma hd_digits_nonzero: "0 < n \<Longrightarrow> hd (digits n) \<noteq> CHR ''0''"
proof (induction n rule: digits.induct)
  case (1 n)
  show ?case
  proof (cases "n < 10")
    case True
    with \<open>0 < n\<close> have "n \<in> {1, 2, 3, 4, 5, 6, 7, 8, 9}" by auto
    then show ?thesis
      by (auto simp: digits_small digit_char_def)
  next
    case False
    then have "0 < n div 10" by simp
    with False 1 have "hd (digits (n div 10)) \<noteq> CHR ''0''" by simp
    with False show ?thesis by (simp add: digits_large digits_not_Nil)
  qed
qed

lemma pad_two_digits:
  assumes "0 \<le> n" and "n < 100"
  shows "pad (Integral n) = two_digits n"
proof (cases "n < 10")
  case True
  with assms have "digits (nat n) = [digit_char (nat n)]"
    by (simp add: digits_small)
  moreover from True assms have "nat n div 10 = 0" "nat n mod 10 = nat n" by simp_all
  ultimately show ?thesis using assms
    by (simp add: pad_def padStart_def two_digits_def digit_char_def)
next
  case False
  with assms have "digits (nat n) = [digit_char (nat n div 10), digit_char (nat n mod 10)]"
    by (simp add: digits_two)
  then show ?thesis using assms False
    by (simp add: pad_def padStart_def two_digits_def)
qed

lemma set_padStart: "set (padStart s n p) \<subseteq> set s \<union> set p"
proof -
  have "set (take k (concat (replicate k p))) \<subseteq> set p" for k
    using set_take_subset [of k "concat (replicate k p)"] by auto
  then show ?thesis by (auto simp: padStart_def)
qed

lemma toString_no_slash: "CHR ''/'' \<notin> set (toString v)"
  by (cases v) (simp_all add: digits_no_slash)

lemma pad_no_slash: "CHR ''/'' \<notin> set (pad v)"
proof -
  have "set (pad v) \<subseteq> set (toString v) \<union> set ''0''"
    unfolding pad_def by (rule set_padStart)
  moreover have "CHR ''/'' \<notin> set (toString v) \<union> set ''0''"
    by (simp add: toString_no_slash)
  ultimately show ?thesis by blast
qed

lemma formatDatePrefix_no_slash: "CHR ''/'' \<notin> set (formatDatePrefix d)"
  by (simp add: formatDatePrefix_def Let_def toString_no_slash pad_no_slash)

section \<open>Facts about the choice prompt\<close>

lemma String_includes_sublist: "String_includes s q = sublist q s"
  by (induction s) (simp_all add: sublist_Cons_right)

lemma String_includes_iff: "String_includes s q \<longleftrightarrow> (\<exists>pre suf. s = pre @ q @ suf)"
  by (simp add: String_includes_sublist sublist_def)

lemma getSuggestions_examples:
  "getSuggestions '''' = [BlogPost, Note, Photos]"
  "getSuggestions ''O'' = [BlogPost, Note, Photos]"
  "getSuggestions ''No'' = [Note]"
  "getSuggestions ''PO'' = [BlogPost]"
  "getSuggestions ''x'' = []"
  by (simp_all add: getSuggestions_def Object_values_PostKind_def toLowerCase_def char_toLowerCase_def)

section \<open>Facts about the text prompt\<close>

lemma deliver_Nil: "deliver f [] m = m"
  by (simp add: deliver_def)

lemma deliver_Cons: "deliver f (e # es) m = deliver f es (dispatch f e m)"
  by (simp add: deliver_def)

lemma deliver_append: "deliver f (es @ es') m = deliver f es' (deliver f es m)"
  by (simp add: deliver_def)

text \<open>Typing alone changes the buffer only: it holds the last text typed.\<close>

lemma deliver_typing:
  "SubmitClicked \<notin> set es \<Longrightarrow>
     deliver f es m = m\<lparr>name := last (name m # [v. TextChanged v \<leftarrow> es])\<rparr>"
proof (induction es arbitrary: m)
  case Nil
  show ?case by (simp add: deliver_Nil)
next
  case (Cons e es)
  then obtain v where e: "e = TextChanged v"
    by (cases e) auto
  from Cons have "deliver f es (onChange v m) =
      (onChange v m)\<lparr>name := last (name (onChange v m) # [v. TextChanged v \<leftarrow> es])\<rparr>"
    by simp
  then show ?case
    by (simp add: e deliver_Cons onChange_def)
qed

text \<open>A promise that is settled keeps its value, whatever reaches the modal later.\<close>

lemma deliver_settled:
  "caller m = Fulfilled t \<Longrightarrow> caller (deliver (\<lambda>title p. resolve p title) es m) = Fulfilled t"
proof (induction es arbitrary: m)
  case Nil
  then show ?case by (simp add: deliver_Nil)
next
  case (Cons e es)
  have "caller (dispatch (\<lambda>title p. resolve p title) e m) = Fulfilled t"
    using Cons.prems by (cases e) (simp_all add: onChange_def onClick_def Modal_close_def)
  then show ?case
    by (simp add: deliver_Cons Cons.IH)
qed

section \<open>Facts about settings\<close>

lemma Object_assign_defaults:
  "Object_assign Map.empty [Some DEFAULT_SETTINGS, loaded] =
     (case loaded of None \<Rightarrow> DEFAULT_SETTINGS | Some record \<Rightarrow> DEFAULT_SETTINGS ++ record)"
  by (simp split: option.splits)

section \<open>Facts about runs of the command\<close>

lemma awaitPostKind_Some: "awaitPostKind (Some kind) = Fulfilled (PostKind_value kind)"
  by (simp add: awaitPostKind_def onChooseSuggestion_def)

lemma awaitPostTitle_typed_submitted: "awaitPostTitle [TextChanged title, SubmitClicked] = Fulfilled title"
  by (simp add: awaitPostTitle_def deliver_def onChange_def onClick_def Modal_open_def
      Modal_close_def PostTitleModal_new_def)

lemma formatDatePrefix_sample_time: "formatDatePrefix sample_time = ''2024-03-05-09-07''"
  by (simp add: sample_time_def formatDatePrefix_def pad_def padStart_def digits.simps digit_char_def)

lemma create_new_post_returned:
  assumes "awaitPostKind (suggestionChosen h) = Fulfilled postKind"
    and "awaitPostTitle (titleModalEvents h) = Fulfilled postTitle"
  shows "create_new_post h =
    ([OpenPostKindChooserModal, ShowNotice postKind, OpenPostTitleModal, ShowNotice postTitle] @
     create_post h postKind postTitle, Returned)"
  using assms by (simp add: create_new_post_def)

lemma folder_requests_create_post:
  "folder_requests (create_post h postKind postTitle) =
     [folderName postKind (currentTime h) postTitle]"
  by (simp add: create_post_def Let_def split: sum.splits)

lemma create_post_failure:
  assumes "vault_createFolder h (folderName postKind (currentTime h) postTitle) = Inl e"
  shows "create_post h postKind postTitle =
    [VaultCreateFolder (folderName postKind (currentTime h) postTitle), ShowNotice (description e)]"
  using assms by (simp add: create_post_def)

lemma create_post_folder_created:
  assumes "vault_createFolder h (folderName postKind (currentTime h) postTitle) = Inr folder_path"
  shows "take 3 (create_post h postKind postTitle) =
    [VaultCreateFolder (folderName postKind (currentTime h) postTitle), ShowNotice folder_path,
     VaultCreate (folder_path @ ''/index.md'') '''']"
  using assms by (simp add: create_post_def)

lemma folderName_unfold:
  "folderName postKind now postTitle =
     ''content/posts/'' @ (if postKind = ''note'' then ''note-'' else '''') @
     formatDatePrefix now @ ''-'' @ postTitle"
  by (simp add: folderName_def)

section \<open>Facts about the naming function on the state of the program\<close>

lemma js_bind_return: "js_bind (js_return v) f r = f v r"
  by (simp add: js_bind_def js_return_def)

lemma js_bind_Date_get:
  "date_objects r this = Some d \<Longrightarrow> js_bind (Date_get getter this) f r = f (getter d) r"
  by (simp add: js_bind_def Date_get_def)

lemma formatDatePrefix_run_Date:
  assumes "date_objects r date = Some d"
  shows "formatDatePrefix_run date r = (Inr (formatDatePrefix d), r)"
  unfolding formatDatePrefix_run_def
  by (simp add: js_bind_Date_get [OF assms] js_bind_return formatDatePrefix_def js_return_def)

lemma formatDatePrefix_getters:
  assumes "getFullYear d = getFullYear d'"
    and "getMonth d = getMonth d'"
    and "getDate d = getDate d'"
    and "getHours d = getHours d'"
    and "getMinutes d = getMinutes d'"
  shows "formatDatePrefix d = formatDatePrefix d'"
  using assms by (simp add: formatDatePrefix_def)

lemma formatDatePrefix_InvalidDate: "formatDatePrefix InvalidDate = ''NaN-NaN-NaN-NaN-NaN''"
  by (simp add: formatDatePrefix_def pad_def padStart_def)

section \<open>Properties of the plugin\<close>

text \<open>
  C1. Once both prompts have resolved, the command asks the vault for exactly one folder,
  and its path is \<open>content/posts/\<close>, then \<open>note-\<close> when the kind is \<open>note\<close> and nothing
  otherwise, then the date prefix of the current time, a hyphen and the title. The kind the
  command receives is the string value of the kind chosen, and that string is \<open>note\<close> for
  the kind Note only. With the date prefix \<open>2024-03-05-09-07\<close> and the title \<open>hello\<close>, the
  path is \<open>content/posts/note-2024-03-05-09-07-hello\<close> for Note and
  \<open>content/posts/2024-03-05-09-07-hello\<close> for BlogPost.
\<close>

theorem create_new_post_folder_path:
  "(awaitPostKind (suggestionChosen h) = Fulfilled postKind \<and>
    awaitPostTitle (titleModalEvents h) = Fulfilled postTitle \<longrightarrow>
      folder_requests (fst (create_new_post h)) =
        [''content/posts/'' @ (if postKind = ''note'' then ''note-'' else '''') @
         formatDatePrefix (currentTime h) @ ''-'' @ postTitle]) \<and>
   (suggestionChosen h = Some kind \<longrightarrow>
      awaitPostKind (suggestionChosen h) = Fulfilled (PostKind_value kind) \<and>
      (PostKind_value kind = ''note'') = (kind = Note)) \<and>
   (formatDatePrefix now = ''2024-03-05-09-07'' \<longrightarrow>
      folderName (PostKind_value Note) now ''hello'' = ''content/posts/note-2024-03-05-09-07-hello'' \<and>
      folderName (PostKind_value BlogPost) now ''hello'' = ''content/posts/2024-03-05-09-07-hello'')"
proof -
  have requests: "folder_requests (fst (create_new_post h)) =
        [''content/posts/'' @ (if postKind = ''note'' then ''note-'' else '''') @
         formatDatePrefix (currentTime h) @ ''-'' @ postTitle]"
    if "awaitPostKind (suggestionChosen h) = Fulfilled postKind"
      and "awaitPostTitle (titleModalEvents h) = Fulfilled postTitle"
    unfolding create_new_post_returned [OF that]
    by (simp add: folder_requests_create_post folderName_unfold)
  have kinds: "awaitPostKind (suggestionChosen h) = Fulfilled (PostKind_value kind) \<and>
      (PostKind_value kind = ''note'') = (kind = Note)"
    if "suggestionChosen h = Some kind"
    using that by (cases kind) (simp_all add: awaitPostKind_Some)
  have examples: "folderName (PostKind_value Note) now ''hello'' = ''content/posts/note-2024-03-05-09-07-hello'' \<and>
      folderName (PostKind_value BlogPost) now ''hello'' = ''content/posts/2024-03-05-09-07-hello''"
    if "formatDatePrefix now = ''2024-03-05-09-07''"
    using that by (simp add: folderName_unfold)
  from requests kinds examples show ?thesis by blast
qed

theorem create_new_post_folder_path_witness:
  "awaitPostKind (suggestionChosen (sample_host Note ''hello'' (\<lambda>p. Inr p))) = Fulfilled ''note'' \<and>
   awaitPostTitle (titleModalEvents (sample_host Note ''hello'' (\<lambda>p. Inr p))) = Fulfilled ''hello'' \<and>
   formatDatePrefix sample_time = ''2024-03-05-09-07'' \<and>
   folder_requests (fst (create_new_post (sample_host Note ''hello'' (\<lambda>p. Inr p)))) =
     [''content/posts/note-2024-03-05-09-07-hello''] \<and>
   folderName (PostKind_value BlogPost) sample_time ''hello'' = ''content/posts/2024-03-05-09-07-hello''"
  using create_new_post_folder_path [of "sample_host Note ''hello'' (\<lambda>p. Inr p)" "''note''" "''hello''"
      Note sample_time]
  by (simp add: sample_host_def awaitPostKind_Some awaitPostTitle_typed_submitted
      formatDatePrefix_sample_time)

text \<open>
  C2. For every calendar instant \<open>formatDatePrefix\<close> returns the year, the month counted
  from 1, the day, the hour and the minute, joined by hyphens; month, day, hour and minute
  are written with two digits (a leading zero below 10), the year is written in plain
  decimal with no padding (a positive year never starts with a zero). For the year 2024,
  month 3, day 5, hour 9 and minute 7 the result is \<open>2024-03-05-09-07\<close>.
\<close>

theorem formatDatePrefix_layout:
  "(calendar_instant c \<longrightarrow>
      formatDatePrefix (LocalTime c) =
        toString (Integral (fullYear c)) @ ''-'' @ two_digits (monthIndex c + 1) @ ''-'' @
        two_digits (dayOfMonth c) @ ''-'' @ two_digits (hour c) @ ''-'' @ two_digits (minute c) \<and>
      (0 \<le> fullYear c \<longrightarrow>
         decimal_value (toString (Integral (fullYear c))) = nat (fullYear c)) \<and>
      (0 < fullYear c \<longrightarrow> hd (formatDatePrefix (LocalTime c)) \<noteq> CHR ''0'')) \<and>
   formatDatePrefix (LocalTime \<lparr>fullYear = 2024, monthIndex = 2, dayOfMonth = 5, hour = 9,
      minute = 7, second = s, millisecond = ms\<rparr>) = ''2024-03-05-09-07''"
proof -
  have layout: "formatDatePrefix (LocalTime c) =
        toString (Integral (fullYear c)) @ ''-'' @ two_digits (monthIndex c + 1) @ ''-'' @
        two_digits (dayOfMonth c) @ ''-'' @ two_digits (hour c) @ ''-'' @ two_digits (minute c)"
    if "calendar_instant c"
  proof -
    from that have "pad (Integral (monthIndex c + 1)) = two_digits (monthIndex c + 1)"
      and "pad (Integral (dayOfMonth c)) = two_digits (dayOfMonth c)"
      and "pad (Integral (hour c)) = two_digits (hour c)"
      and "pad (Integral (minute c)) = two_digits (minute c)"
      by (simp_all add: calendar_instant_def pad_two_digits)
    then show ?thesis by (simp add: formatDatePrefix_def)
  qed
  have plain: "decimal_value (toString (Integral (fullYear c))) = nat (fullYear c)"
    if "0 \<le> fullYear c"
    using that by (simp add: decimal_value_digits)
  have unpadded: "hd (formatDatePrefix (LocalTime c)) \<noteq> CHR ''0''" if "0 < fullYear c"
  proof -
    from that have "hd (digits (nat (fullYear c))) \<noteq> CHR ''0''"
      by (simp add: hd_digits_nonzero)
    with that show ?thesis
      by (simp add: formatDatePrefix_def digits_not_Nil)
  qed
  have example: "formatDatePrefix (LocalTime \<lparr>fullYear = 2024, monthIndex = 2, dayOfMonth = 5,
      hour = 9, minute = 7, second = s, millisecond = ms\<rparr>) = ''2024-03-05-09-07''"
    by (simp add: formatDatePrefix_def pad_def padStart_def digits.simps digit_char_def)
  from layout plain unpadded example show ?thesis by blast
qed

theorem formatDatePrefix_layout_witness:
  "calendar_instant \<lparr>fullYear = 1999, monthIndex = 11, dayOfMonth = 31, hour = 23,
      minute = 0, second = 58, millisecond = 123\<rparr> \<and>
   formatDatePrefix (LocalTime \<lparr>fullYear = 1999, monthIndex = 11, dayOfMonth = 31, hour = 23,
      minute = 0, second = 58, millisecond = 123\<rparr>) = ''1999-12-31-23-00'' \<and>
   decimal_value ''1999'' = 1999 \<and>
   formatDatePrefix (LocalTime \<lparr>fullYear = 2024, monthIndex = 2, dayOfMonth = 5, hour = 9,
      minute = 7, second = 0, millisecond = 0\<rparr>) = ''2024-03-05-09-07''"
  using formatDatePrefix_layout [of "\<lparr>fullYear = 1999, monthIndex = 11, dayOfMonth = 31,
      hour = 23, minute = 0, second = 58, millisecond = 123\<rparr>" 0 0]
  by (simp add: calendar_instant_def two_digits_def digits.simps digit_char_def)

text \<open>
  C3. For every query, \<open>getSuggestions\<close> returns the candidates \<open>blogpost\<close>, \<open>note\<close>,
  \<open>photos\<close> whose lowercased text contains the lowercased query as a substring, in the
  order of the candidate list and with nothing else done to them.
\<close>

theorem getSuggestions_filter:
  "getSuggestions q =
     filter (\<lambda>c. \<exists>pre suf. toLowerCase (PostKind_value c) = pre @ toLowerCase q @ suf)
       [BlogPost, Note, Photos] \<and>
   subseq (getSuggestions q) [BlogPost, Note, Photos]"
proof -
  have "getSuggestions q =
     filter (\<lambda>c. \<exists>pre suf. toLowerCase (PostKind_value c) = pre @ toLowerCase q @ suf)
       [BlogPost, Note, Photos]"
    unfolding getSuggestions_def Object_values_PostKind_def String_includes_iff ..
  moreover have "subseq (getSuggestions q) [BlogPost, Note, Photos]"
    unfolding getSuggestions_def Object_values_PostKind_def by (rule subseq_filter_left)
  ultimately show ?thesis by (rule conjI)
qed

text \<open>
  C4. When the request to create the folder fails, the run consists of the two prompts
  with their notices, the one request for the folder and one notice with the description
  of the failure; the failure causes that one notice only, the folder is requested once,
  no file is requested, nothing is opened, and the command returns.
\<close>

theorem folder_creation_failure:
  assumes "awaitPostKind (suggestionChosen h) = Fulfilled postKind"
    and "awaitPostTitle (titleModalEvents h) = Fulfilled postTitle"
    and "vault_createFolder h (folderName postKind (currentTime h) postTitle) = Inl e"
  shows "create_new_post h =
      ([OpenPostKindChooserModal, ShowNotice postKind, OpenPostTitleModal, ShowNotice postTitle,
        VaultCreateFolder (folderName postKind (currentTime h) postTitle),
        ShowNotice (description e)], Returned) \<and>
    notices (create_post h postKind postTitle) = [description e] \<and>
    folder_requests (fst (create_new_post h)) = [folderName postKind (currentTime h) postTitle] \<and>
    file_requests (fst (create_new_post h)) = [] \<and>
    navigations (fst (create_new_post h)) = []"
  unfolding create_new_post_returned [OF assms(1,2)] create_post_failure [OF assms(3)]
  by simp

theorem folder_creation_failure_witness:
  "awaitPostKind (suggestionChosen (sample_host Note ''hello'' (\<lambda>p. Inl (Failure ''Folder already exists.'')))) =
     Fulfilled ''note'' \<and>
   awaitPostTitle (titleModalEvents (sample_host Note ''hello'' (\<lambda>p. Inl (Failure ''Folder already exists.'')))) =
     Fulfilled ''hello'' \<and>
   create_new_post (sample_host Note ''hello'' (\<lambda>p. Inl (Failure ''Folder already exists.''))) =
     ([OpenPostKindChooserModal, ShowNotice ''note'', OpenPostTitleModal, ShowNotice ''hello'',
       VaultCreateFolder ''content/posts/note-2024-03-05-09-07-hello'',
       ShowNotice ''Folder already exists.''], Returned)"
  using folder_creation_failure [of "sample_host Note ''hello'' (\<lambda>p. Inl (Failure ''Folder already exists.''))"
      "''note''" "''hello''" "Failure ''Folder already exists.''"]
  by (simp add: sample_host_def awaitPostKind_Some awaitPostTitle_typed_submitted
      folderName_unfold formatDatePrefix_sample_time)

text \<open>
  C5. The promise of the text prompt is settled by the first press of Submit, with the
  text the buffer holds at that moment, which is the text typed last (the empty string when
  nothing was typed); nothing that happens afterwards changes it, and without a press of
  Submit it stays pending. A press of Submit right after opening settles it with the empty
  string.
\<close>

theorem PostTitleModal_resolves_once:
  "(SubmitClicked \<notin> set typed \<longrightarrow>
      awaitPostTitle (typed @ SubmitClicked # later) =
        Fulfilled (name (deliver (\<lambda>title p. resolve p title) typed
          (Modal_open (PostTitleModal_new (Pending :: string promise))))) \<and>
      name (deliver (\<lambda>title p. resolve p title) typed
          (Modal_open (PostTitleModal_new (Pending :: string promise)))) =
        last ('''' # [v. TextChanged v \<leftarrow> typed]) \<and>
      awaitPostTitle typed = Pending) \<and>
   awaitPostTitle (SubmitClicked # later) = Fulfilled ''''"
proof -
  let ?resolve = "\<lambda>title p. resolve p title"
  let ?m0 = "Modal_open (PostTitleModal_new (Pending :: string promise))"
  have typing: "deliver ?resolve es ?m0 = ?m0\<lparr>name := last ('''' # [v. TextChanged v \<leftarrow> es])\<rparr>"
    if "SubmitClicked \<notin> set es" for es
    using deliver_typing [OF that, of ?resolve ?m0]
    by (simp add: Modal_open_def PostTitleModal_new_def)
  have settle: "awaitPostTitle (es @ SubmitClicked # es') =
      Fulfilled (last ('''' # [v. TextChanged v \<leftarrow> es]))"
    if "SubmitClicked \<notin> set es" for es es'
  proof -
    have "caller (dispatch ?resolve SubmitClicked (deliver ?resolve es ?m0)) =
        Fulfilled (last ('''' # [v. TextChanged v \<leftarrow> es]))"
      unfolding typing [OF that]
      by (simp add: onClick_def Modal_close_def Modal_open_def PostTitleModal_new_def)
    then show ?thesis
      unfolding awaitPostTitle_def deliver_append deliver_Cons by (rule deliver_settled)
  qed
  have buffer: "name (deliver ?resolve typed ?m0) = last ('''' # [v. TextChanged v \<leftarrow> typed])"
    if "SubmitClicked \<notin> set typed"
    unfolding typing [OF that] by simp
  have pending: "awaitPostTitle typed = Pending" if "SubmitClicked \<notin> set typed"
    unfolding awaitPostTitle_def typing [OF that]
    by (simp add: Modal_open_def PostTitleModal_new_def)
  have "awaitPostTitle ([] @ SubmitClicked # later) =
      Fulfilled (last ('''' # [v. TextChanged v \<leftarrow> []]))"
    by (rule settle) simp
  then have at_once: "awaitPostTitle (SubmitClicked # later) = Fulfilled ''''"
    by simp
  from settle [of typed later] buffer pending at_once show ?thesis
    by simp
qed

theorem PostTitleModal_resolves_once_witness:
  "SubmitClicked \<notin> set [TextChanged ''he'', TextChanged ''hello''] \<and>
   awaitPostTitle [TextChanged ''he'', TextChanged ''hello'', SubmitClicked,
     TextChanged ''late'', SubmitClicked] = Fulfilled ''hello'' \<and>
   awaitPostTitle [TextChanged ''he'', TextChanged ''hello''] = Pending \<and>
   awaitPostTitle [SubmitClicked] = Fulfilled ''''"
  using PostTitleModal_resolves_once [of "[TextChanged ''he'', TextChanged ''hello'']"
      "[TextChanged ''late'', SubmitClicked]"]
    PostTitleModal_resolves_once [of "[]" "[]"]
  by (simp add: deliver_def onChange_def Modal_open_def PostTitleModal_new_def)

text \<open>
  C6. Saving the settings \<open>{mySetting: "x"}\<close> and loading them again gives
  \<open>{mySetting: "x"}\<close>; loading when nothing was saved gives \<open>{mySetting: "test"}\<close>;
  loading merges the saved record over the defaults: a key of the saved record has the saved
  value, any other key has its default.
\<close>

theorem settings_round_trip:
  "settings (loadSettings (saveSettings (p\<lparr>settings := [''mySetting'' \<mapsto> ''x'']\<rparr>))) =
     [''mySetting'' \<mapsto> ''x''] \<and>
   (stored p = None \<longrightarrow> settings (loadSettings p) = [''mySetting'' \<mapsto> ''test'']) \<and>
   (stored p = Some loaded \<longrightarrow>
      settings (loadSettings p) key =
        (case loaded key of Some v \<Rightarrow> Some v | None \<Rightarrow> DEFAULT_SETTINGS key))"
proof -
  have "settings (loadSettings (saveSettings (p\<lparr>settings := [''mySetting'' \<mapsto> ''x'']\<rparr>))) =
      DEFAULT_SETTINGS ++ [''mySetting'' \<mapsto> ''x'']"
    by (simp add: loadSettings_def saveSettings_def loadData_def saveData_def
        Object_assign_defaults del: Object_assign.simps)
  then have round_trip:
    "settings (loadSettings (saveSettings (p\<lparr>settings := [''mySetting'' \<mapsto> ''x'']\<rparr>))) =
      [''mySetting'' \<mapsto> ''x'']"
    by (simp add: DEFAULT_SETTINGS_def)
  have first_load: "settings (loadSettings p) = [''mySetting'' \<mapsto> ''test'']"
    if "stored p = None"
    using that by (simp add: loadSettings_def loadData_def DEFAULT_SETTINGS_def)
  have merge: "settings (loadSettings p) key =
      (case loaded key of Some v \<Rightarrow> Some v | None \<Rightarrow> DEFAULT_SETTINGS key)"
    if "stored p = Some loaded"
    using that by (simp add: loadSettings_def loadData_def map_add_def split: option.splits)
  from round_trip first_load merge show ?thesis by blast
qed

theorem settings_round_trip_witness:
  "settings (loadSettings \<lparr>settings = Map.empty, stored = None\<rparr>) = [''mySetting'' \<mapsto> ''test''] \<and>
   settings (loadSettings \<lparr>settings = Map.empty, stored = Some [''other'' \<mapsto> ''1'']\<rparr>) ''mySetting'' =
     Some ''test'' \<and>
   settings (loadSettings \<lparr>settings = Map.empty, stored = Some [''other'' \<mapsto> ''1'']\<rparr>) ''other'' =
     Some ''1'' \<and>
   settings (loadSettings \<lparr>settings = Map.empty, stored = Some [''mySetting'' \<mapsto> ''x'']\<rparr>) ''mySetting'' =
     Some ''x''"
  using settings_round_trip [of "\<lparr>settings = Map.empty, stored = None\<rparr>" "Map.empty" "''mySetting''"]
    settings_round_trip [of "\<lparr>settings = Map.empty, stored = Some [''other'' \<mapsto> ''1'']\<rparr>"
      "[''other'' \<mapsto> ''1'']" "''mySetting''"]
    settings_round_trip [of "\<lparr>settings = Map.empty, stored = Some [''other'' \<mapsto> ''1'']\<rparr>"
      "[''other'' \<mapsto> ''1'']" "''other''"]
    settings_round_trip [of "\<lparr>settings = Map.empty, stored = Some [''mySetting'' \<mapsto> ''x'']\<rparr>"
      "[''mySetting'' \<mapsto> ''x'']" "''mySetting''"]
  by (simp add: DEFAULT_SETTINGS_def)

text \<open>
  C7. For every query, each suggestion is one of the candidates, and filtering the
  suggestions again with the same query returns them unchanged.
\<close>

theorem getSuggestions_subset_idempotent:
  "set (getSuggestions q) \<subseteq> set Object_values_PostKind \<and>
   filter (\<lambda>postKind. String_includes (toLowerCase (PostKind_value postKind)) (toLowerCase q))
     (getSuggestions q) = getSuggestions q"
  by (simp add: getSuggestions_def)

text \<open>
  C8. Called on a reference to a \<open>Date\<close> object, valid or invalid, \<open>formatDatePrefix\<close>
  returns a string and throws nothing (it is total); it leaves the state of the program as
  it found it, the \<open>Date\<close> objects and what has been done to the host alike (it has no
  side effects); and the string is the date prefix of the object's value, whatever else the
  state holds (it is pure). Two calls, in any two states, on objects that agree on year,
  month, day, hour and minute return equal strings, whatever their seconds and
  milliseconds (it is deterministic).
\<close>

theorem formatDatePrefix_pure_total:
  "(date_objects r date = Some d \<longrightarrow>
      (\<exists>s. fst (formatDatePrefix_run date r) = Inr s) \<and>
      snd (formatDatePrefix_run date r) = r \<and>
      fst (formatDatePrefix_run date r) = Inr (formatDatePrefix d)) \<and>
   (date_objects r date = Some d \<and> date_objects r' date' = Some d' \<and>
    getFullYear d = getFullYear d' \<and> getMonth d = getMonth d' \<and> getDate d = getDate d' \<and>
    getHours d = getHours d' \<and> getMinutes d = getMinutes d' \<longrightarrow>
      fst (formatDatePrefix_run date r) = fst (formatDatePrefix_run date' r'))"
proof -
  have returns: "(\<exists>s. fst (formatDatePrefix_run date r) = Inr s) \<and>
      snd (formatDatePrefix_run date r) = r \<and>
      fst (formatDatePrefix_run date r) = Inr (formatDatePrefix d)"
    if "date_objects r date = Some d"
    by (simp add: formatDatePrefix_run_Date [OF that])
  have same: "fst (formatDatePrefix_run date r) = fst (formatDatePrefix_run date' r')"
    if "date_objects r date = Some d" and "date_objects r' date' = Some d'"
      and "getFullYear d = getFullYear d'" and "getMonth d = getMonth d'"
      and "getDate d = getDate d'" and "getHours d = getHours d'"
      and "getMinutes d = getMinutes d'"
    using formatDatePrefix_getters [OF that(3-7)]
    by (simp add: formatDatePrefix_run_Date [OF that(1)] formatDatePrefix_run_Date [OF that(2)])
  from returns same show ?thesis by blast
qed

theorem formatDatePrefix_pure_total_witness:
  "date_objects sample_runtime 0 = Some sample_time \<and>
   formatDatePrefix_run 0 sample_runtime = (Inr ''2024-03-05-09-07'', sample_runtime) \<and>
   fst (formatDatePrefix_run 7 other_runtime) = Inr ''2024-03-05-09-07'' \<and>
   formatDatePrefix_run 8 other_runtime = (Inr ''NaN-NaN-NaN-NaN-NaN'', other_runtime)"
proof -
  let ?d = "LocalTime \<lparr>fullYear = 2024, monthIndex = 2, dayOfMonth = 5, hour = 9,
      minute = 7, second = 0, millisecond = 0\<rparr>"
  have object0: "date_objects sample_runtime 0 = Some sample_time"
    by (simp add: sample_runtime_def)
  have object7: "date_objects other_runtime 7 = Some ?d"
    by (simp add: other_runtime_def)
  have object8: "date_objects other_runtime 8 = Some InvalidDate"
    by (simp add: other_runtime_def)
  have run0: "fst (formatDatePrefix_run 0 sample_runtime) = Inr (formatDatePrefix sample_time)"
    and state0: "snd (formatDatePrefix_run 0 sample_runtime) = sample_runtime"
    and run7: "fst (formatDatePrefix_run 0 sample_runtime) = fst (formatDatePrefix_run 7 other_runtime)"
    using formatDatePrefix_pure_total [of sample_runtime 0 sample_time other_runtime 7 ?d]
      object0 object7
    by (auto simp: sample_time_def)
  have run8: "fst (formatDatePrefix_run 8 other_runtime) = Inr (formatDatePrefix InvalidDate)"
    and state8: "snd (formatDatePrefix_run 8 other_runtime) = other_runtime"
    using formatDatePrefix_pure_total [of other_runtime 8 InvalidDate other_runtime 8 InvalidDate]
      object8
    by simp_all
  from run0 run7 have "fst (formatDatePrefix_run 7 other_runtime) = Inr (formatDatePrefix sample_time)"
    by simp
  with object0 run0 state0 run8 state8 show ?thesis
    by (simp add: prod_eq_iff formatDatePrefix_sample_time formatDatePrefix_InvalidDate)
qed

text \<open>
  C9. The title is appended to the folder name as it is: the name for a title is the
  name for the empty title followed by the title; the name for the empty title ends with a
  hyphen; every \<open>/\<close> of the title is a further separator of the path, beside the two of
  \<open>content/posts/\<close>; and once both prompts have resolved the folder is requested under
  this name, whatever the title is.
\<close>

theorem folderName_title_verbatim:
  "folderName postKind now postTitle = folderName postKind now '''' @ postTitle \<and>
   last (folderName postKind now '''') = CHR ''-'' \<and>
   count_list (folderName postKind now postTitle) CHR ''/'' = 2 + count_list postTitle CHR ''/'' \<and>
   (awaitPostKind (suggestionChosen h) = Fulfilled postKind \<and>
    awaitPostTitle (titleModalEvents h) = Fulfilled postTitle \<longrightarrow>
      VaultCreateFolder (folderName postKind (currentTime h) '''' @ postTitle) \<in>
        set (fst (create_new_post h)))"
proof -
  have verbatim: "folderName postKind now postTitle = folderName postKind now '''' @ postTitle" for now
    by (simp add: folderName_def)
  have hyphen: "last (folderName postKind now '''') = CHR ''-''"
    by (simp add: folderName_def)
  have "count_list (formatDatePrefix now) CHR ''/'' = 0"
    using formatDatePrefix_no_slash [of now] by simp
  then have segments:
    "count_list (folderName postKind now postTitle) CHR ''/'' = 2 + count_list postTitle CHR ''/''"
    by (simp add: folderName_def)
  have request: "VaultCreateFolder (folderName postKind (currentTime h) '''' @ postTitle) \<in>
        set (fst (create_new_post h))"
    if "awaitPostKind (suggestionChosen h) = Fulfilled postKind"
      and "awaitPostTitle (titleModalEvents h) = Fulfilled postTitle"
    unfolding create_new_post_returned [OF that] verbatim [symmetric]
    by (simp add: create_post_def Let_def)
  from verbatim hyphen segments request show ?thesis by blast
qed

theorem folderName_title_verbatim_witness:
  "folderName ''note'' sample_time ''a/b'' = ''content/posts/note-2024-03-05-09-07-a/b'' \<and>
   folderName ''note'' sample_time '''' = ''content/posts/note-2024-03-05-09-07-'' \<and>
   count_list (folderName ''note'' sample_time ''a/b'') CHR ''/'' = 3 \<and>
   VaultCreateFolder ''content/posts/note-2024-03-05-09-07-a/b'' \<in>
     set (fst (create_new_post (sample_host Note ''a/b'' (\<lambda>p. Inr p))))"
  using folderName_title_verbatim [of "''note''" sample_time "''a/b''"
      "sample_host Note ''a/b'' (\<lambda>p. Inr p)"]
  by (simp add: sample_host_def awaitPostKind_Some awaitPostTitle_typed_submitted
      folderName_unfold formatDatePrefix_sample_time)

text \<open>
  C10. A run in which the choice prompt resolves starts with the choice prompt, a notice
  with the kind, and the text prompt, in this order. When the text prompt resolves too,
  a notice with the title and the request for the folder follow. When the folder is
  created, a notice with the path of the created folder follows, before the request for
  the file.
\<close>

theorem create_new_post_notices:
  "(awaitPostKind (suggestionChosen h) = Fulfilled postKind \<longrightarrow>
      take 3 (fst (create_new_post h)) =
        [OpenPostKindChooserModal, ShowNotice postKind, OpenPostTitleModal]) \<and>
   (awaitPostKind (suggestionChosen h) = Fulfilled postKind \<and>
    awaitPostTitle (titleModalEvents h) = Fulfilled postTitle \<longrightarrow>
      take 5 (fst (create_new_post h)) =
        [OpenPostKindChooserModal, ShowNotice postKind, OpenPostTitleModal, ShowNotice postTitle,
         VaultCreateFolder (folderName postKind (currentTime h) postTitle)]) \<and>
   (awaitPostKind (suggestionChosen h) = Fulfilled postKind \<and>
    awaitPostTitle (titleModalEvents h) = Fulfilled postTitle \<and>
    vault_createFolder h (folderName postKind (currentTime h) postTitle) = Inr folder_path \<longrightarrow>
      take 7 (fst (create_new_post h)) =
        [OpenPostKindChooserModal, ShowNotice postKind, OpenPostTitleModal, ShowNotice postTitle,
         VaultCreateFolder (folderName postKind (currentTime h) postTitle),
         ShowNotice folder_path, VaultCreate (folder_path @ ''/index.md'') ''''])"
proof -
  have kind_notice: "take 3 (fst (create_new_post h)) =
        [OpenPostKindChooserModal, ShowNotice postKind, OpenPostTitleModal]"
    if "awaitPostKind (suggestionChosen h) = Fulfilled postKind"
    using that by (simp add: create_new_post_def split: promise.splits)
  have title_notice: "take 5 (fst (create_new_post h)) =
        [OpenPostKindChooserModal, ShowNotice postKind, OpenPostTitleModal, ShowNotice postTitle,
         VaultCreateFolder (folderName postKind (currentTime h) postTitle)]"
    if "awaitPostKind (suggestionChosen h) = Fulfilled postKind"
      and "awaitPostTitle (titleModalEvents h) = Fulfilled postTitle"
    unfolding create_new_post_returned [OF that]
    by (simp add: create_post_def Let_def)
  have path_notice: "take 7 (fst (create_new_post h)) =
        [OpenPostKindChooserModal, ShowNotice postKind, OpenPostTitleModal, ShowNotice postTitle,
         VaultCreateFolder (folderName postKind (currentTime h) postTitle),
         ShowNotice folder_path, VaultCreate (folder_path @ ''/index.md'') '''']"
    if "awaitPostKind (suggestionChosen h) = Fulfilled postKind"
      and "awaitPostTitle (titleModalEvents h) = Fulfilled postTitle"
      and "vault_createFolder h (folderName postKind (currentTime h) postTitle) = Inr folder_path"
    using create_post_folder_created [OF that(3)]
    unfolding create_new_post_returned [OF that(1,2)]
    by simp
  from kind_notice title_notice path_notice show ?thesis by blast
qed

theorem create_new_post_notices_witness:
  "awaitPostKind (suggestionChosen (sample_host Photos ''trip'' (\<lambda>p. Inr p))) = Fulfilled ''photos'' \<and>
   awaitPostTitle (titleModalEvents (sample_host Photos ''trip'' (\<lambda>p. Inr p))) = Fulfilled ''trip'' \<and>
   vault_createFolder (sample_host Photos ''trip'' (\<lambda>p. Inr p))
     (folderName ''photos'' (currentTime (sample_host Photos ''trip'' (\<lambda>p. Inr p))) ''trip'') =
     Inr ''content/posts/2024-03-05-09-07-trip'' \<and>
   take 7 (fst (create_new_post (sample_host Photos ''trip'' (\<lambda>p. Inr p)))) =
     [OpenPostKindChooserModal, ShowNotice ''photos'', OpenPostTitleModal, ShowNotice ''trip'',
      VaultCreateFolder ''content/posts/2024-03-05-09-07-trip'',
      ShowNotice ''content/posts/2024-03-05-09-07-trip'',
      VaultCreate ''content/posts/2024-03-05-09-07-trip/index.md'' '''']"
  using create_new_post_notices [of "sample_host Photos ''trip'' (\<lambda>p. Inr p)" "''photos''" "''trip''"
      "''content/posts/2024-03-05-09-07-trip''"]
  by (simp add: sample_host_def awaitPostKind_Some awaitPostTitle_typed_submitted
      folderName_unfold formatDatePrefix_sample_time)

end
